theory Spec2Isabelle
  imports Main
begin

section \<open>The relay server of src/backend/index.js\<close>

text \<open>
  The backend is an Express application with a Socket.IO server on the same HTTP server.
  It keeps one process-wide table, \<^verbatim>\<open>connectedClients\<close> (a JavaScript \<^verbatim>\<open>Map\<close>), and
  a handful of handlers: the Socket.IO \<^verbatim>\<open>connection\<close> listener with the listeners it
  attaches to a socket, three HTTP routes, and the listeners of \<^verbatim>\<open>server.listen\<close>.
  Node runs each handler to completion on one thread, so a handler is modelled as a
  function from the table before it to an outcome: the table after it, the calls it made
  to the outside (console, sockets, broadcast) in program order, and how it ended.
\<close>

subsection \<open>Values received from clients\<close>

text \<open>
  What \<^verbatim>\<open>express.json()\<close> puts in \<^verbatim>\<open>req.body\<close> and what a Socket.IO client sends as
  event data is a JSON value. An object is the list of its own properties (each key
  once, in insertion order); no value of this kind is callable. \<open>JNum\<close> carries an
  integer-valued number of magnitude below \<open>10\<^sup>2\<^sup>1\<close>, which prints as its decimal digits. A JavaScript string is a sequence of code units, written here
  as a \<open>string\<close>. A value that is \<^verbatim>\<open>undefined\<close> (a missing body, missing event data, a
  missing property) is \<open>None\<close> of type \<open>json option\<close>.
\<close>

datatype json =
    JNull
  | JBool bool
  | JNum int
  | JStr string
  | JArr "json list"
  | JObj "(string \<times> json) list"

text \<open>
  An exception object: its \<^verbatim>\<open>code\<close> (Node's system errors have one) and its
  \<^verbatim>\<open>message\<close>. The messages of the exceptions that the language raises are
  worded as V8 words them.
\<close>

record js_error =
  error_code :: "string option"
  error_message :: string

definition TypeError :: "string \<Rightarrow> js_error" where
  "TypeError msg = \<lparr>error_code = None, error_message = msg\<rparr>"

text \<open>Decimal rendering of a non-negative integer, as \<^verbatim>\<open>Number.prototype.toString\<close> gives it.\<close>

fun show_nat :: "nat \<Rightarrow> string" where
  "show_nat n =
     (if n < 10 then [''0123456789'' ! n]
      else show_nat (n div 10) @ [''0123456789'' ! (n mod 10)])"

declare show_nat.simps [simp del]

text \<open>
  \<^verbatim>\<open>ToString\<close>, the conversion a template literal applies to each substitution. A
  primitive converts directly. An array converts through \<^verbatim>\<open>Array.prototype.join\<close>:
  the elements converted in turn, \<^verbatim>\<open>null\<close> as the empty string, separated by commas. An
  object goes through \<^verbatim>\<open>OrdinaryToPrimitive\<close>: its \<^verbatim>\<open>toString\<close> is called when it is
  callable, which is the inherited \<^verbatim>\<open>Object.prototype.toString\<close> unless the object has
  an own property of that name; an own property is never callable here, the inherited
  \<^verbatim>\<open>valueOf\<close> returns the object itself, and the conversion ends in a \<^verbatim>\<open>TypeError\<close>.
\<close>

fun to_string :: "json \<Rightarrow> js_error + string"
  and join :: "json list \<Rightarrow> js_error + string" where
  "to_string JNull = Inr ''null''"
| "to_string (JBool b) = Inr (if b then ''true'' else ''false'')"
| "to_string (JNum n) = Inr (if n < 0 then ''-'' @ show_nat (nat (- n)) else show_nat (nat n))"
| "to_string (JStr s) = Inr s"
| "to_string (JArr xs) = join xs"
| "to_string (JObj ps) =
     (if map_of ps ''toString'' = None then Inr ''[object Object]''
      else Inl (TypeError ''Cannot convert object to primitive value''))"
| "join [] = Inr ''''"
| "join (x # xs) =
     (case (if x = JNull then Inr '''' else to_string x) of
        Inl e \<Rightarrow> Inl e
      | Inr s \<Rightarrow>
          (if xs = [] then Inr s
           else (case join xs of Inl e \<Rightarrow> Inl e | Inr r \<Rightarrow> Inr (s @ '','' @ r))))"

text \<open>A substitution \<^verbatim>\<open>${v}\<close> where \<^verbatim>\<open>v\<close> may be \<^verbatim>\<open>undefined\<close>.\<close>

definition template :: "json option \<Rightarrow> js_error + string" where
  "template v = (case v of None \<Rightarrow> Inr ''undefined'' | Some j \<Rightarrow> to_string j)"

text \<open>Truthiness, as \<^verbatim>\<open>if\<close> and \<^verbatim>\<open>&&\<close> test it.\<close>

fun truthy :: "json \<Rightarrow> bool" where
  "truthy JNull = False"
| "truthy (JBool b) = b"
| "truthy (JNum n) = (n \<noteq> 0)"
| "truthy (JStr s) = (s \<noteq> [])"
| "truthy (JArr xs) = True"
| "truthy (JObj ps) = True"

text \<open>
  The property read \<^verbatim>\<open>v.name\<close> on a value that is neither \<^verbatim>\<open>undefined\<close> nor \<^verbatim>\<open>null\<close>,
  for the names the handlers read (\<^verbatim>\<open>message\<close>, \<^verbatim>\<open>account\<close>, \<^verbatim>\<open>signature\<close>): none of
  them is defined by a built-in prototype, so only an object's own property gives a value.
\<close>

fun get_field :: "json \<Rightarrow> string \<Rightarrow> json option" where
  "get_field (JObj ps) name = map_of ps name"
| "get_field _ name = None"

text \<open>The same read on event data that may be \<^verbatim>\<open>undefined\<close> or \<^verbatim>\<open>null\<close>, where it throws.\<close>

definition read_field :: "json option \<Rightarrow> string \<Rightarrow> js_error + json option" where
  "read_field data name =
     (case data of
        None \<Rightarrow> Inl (TypeError (''Cannot read properties of undefined (reading ''
                           @ [CHR 0x27] @ name @ [CHR 0x27] @ '')''))
      | Some JNull \<Rightarrow> Inl (TypeError (''Cannot read properties of null (reading ''
                                 @ [CHR 0x27] @ name @ [CHR 0x27] @ '')''))
      | Some j \<Rightarrow> Inr (get_field j name))"

subsection \<open>The table of connected clients\<close>

text \<open>
  A JavaScript \<^verbatim>\<open>Map\<close> iterates in insertion order, so the table is the list of its
  entries. \<^verbatim>\<open>set\<close> replaces the value of a key that is present, in place, and appends a
  new key; \<^verbatim>\<open>delete\<close> of an absent key does nothing.
\<close>

definition jsmap_has :: "'k \<Rightarrow> ('k \<times> 'v) list \<Rightarrow> bool" where
  "jsmap_has k m = (map_of m k \<noteq> None)"

fun jsmap_set :: "'k \<Rightarrow> 'v \<Rightarrow> ('k \<times> 'v) list \<Rightarrow> ('k \<times> 'v) list" where
  "jsmap_set k v [] = [(k, v)]"
| "jsmap_set k v (p # ps) = (if fst p = k then (k, v) # ps else p # jsmap_set k v ps)"

definition jsmap_delete :: "'k \<Rightarrow> ('k \<times> 'v) list \<Rightarrow> ('k \<times> 'v) list" where
  "jsmap_delete k m = filter (\<lambda>p. fst p \<noteq> k) m"

definition jsmap_size :: "('k \<times> 'v) list \<Rightarrow> nat" where
  "jsmap_size m = length m"

definition jsmap_keys :: "('k \<times> 'v) list \<Rightarrow> 'k list" where
  "jsmap_keys m = map fst m"

definition jsmap_values :: "('k \<times> 'v) list \<Rightarrow> 'v list" where
  "jsmap_values m = map snd m"

text \<open>The record stored for a connection; \<open>connectedAt\<close> is in milliseconds since the epoch.\<close>

record clientInfo =
  client_id :: string
  ip :: string
  userAgent :: "string option"
  connectedAt :: nat

type_synonym registry = "(string \<times> clientInfo) list"

text \<open>What the \<^verbatim>\<open>connection\<close> listener reads of a socket.\<close>

record socket =
  socket_id :: string
  handshake_address :: string
  handshake_user_agent :: "string option"

subsection \<open>Calls to the outside, responses, outcomes\<close>

text \<open>The payload of a \<^verbatim>\<open>triggerSign\<close> broadcast, \<^verbatim>\<open>{ message, id: messageId }\<close>.\<close>

record messageData =
  message :: json
  id_field :: string

text \<open>
  The calls a handler makes, in program order. \<open>SocketEmit s text\<close> is
  \<^verbatim>\<open>socket.emit('serverMessage', { message: text })\<close> on the socket with id \<open>s\<close>;
  \<open>SocketOn s ev\<close> attaches a listener for \<open>ev\<close> to it; \<open>IoEmit d\<close> is
  \<^verbatim>\<open>io.emit('triggerSign', d)\<close>. A \<open>ConsoleLogData\<close> or \<open>ConsoleErrorData\<close> is a
  console call with a second argument.
\<close>

datatype effect =
    ConsoleLog string
  | ConsoleLogData string "json option"
  | ConsoleError string
  | ConsoleErrorData string js_error
  | SocketEmit string string
  | SocketOn string string
  | IoEmit messageData

text \<open>An entry of the status response, \<^verbatim>\<open>{ id, connectedSince }\<close>.\<close>

record client_view =
  view_id :: string
  connectedSince :: nat

text \<open>
  The JSON bodies the routes send: \<^verbatim>\<open>{status, connectedClients, clients}\<close>,
  \<^verbatim>\<open>{success, message, clients, messageId}\<close>, \<^verbatim>\<open>{success, message}\<close> and
  \<^verbatim>\<open>{success, message, error}\<close>. \<open>ErrorPage\<close> is the page that Express's own error
  handler sends when a middleware fails; index.js installs no error handler of its own.
\<close>

datatype response_body =
    StatusBody string nat "client_view list"
  | TriggerSent bool string "string list" string
  | TriggerRefused bool string
  | TriggerFailed bool string string
  | ErrorPage

record response =
  status_code :: nat
  body :: response_body

text \<open>
  How a handler ends: it returns, it sends an HTTP response and returns, an exception
  leaves it uncaught, or it calls \<^verbatim>\<open>process.exit\<close> with a status.
\<close>

datatype completion =
    Returned
  | Responded response
  | Uncaught js_error
  | Exited nat

record outcome =
  connectedClients :: registry
  effects :: "effect list"
  completion :: completion

text \<open>
  A run of statements, each of which either makes a call or throws: the calls made up to
  the first throw, and the exception if there was one. The statements of the handlers do
  not depend on each other's results.
\<close>

fun run_steps :: "(js_error + effect) list \<Rightarrow> effect list \<times> js_error option" where
  "run_steps [] = ([], None)"
| "run_steps (Inl e # rest) = ([], Some e)"
| "run_steps (Inr x # rest) = (x # fst (run_steps rest), snd (run_steps rest))"

definition logging :: "string \<Rightarrow> js_error + string \<Rightarrow> js_error + effect" where
  "logging prefix str = (case str of Inl e \<Rightarrow> Inl e | Inr s \<Rightarrow> Inr (ConsoleLog (prefix @ s)))"

subsection \<open>The connection listener and the listeners of a socket\<close>

definition on_connection :: "nat \<Rightarrow> socket \<Rightarrow> registry \<Rightarrow> outcome" where
  "on_connection now socket reg =
     (let info = \<lparr>client_id = socket_id socket, ip = handshake_address socket,
                  userAgent = handshake_user_agent socket, connectedAt = now\<rparr>;
          logs = [ConsoleLog (''Client connected: '' @ socket_id socket @ '' (IP: '' @ ip info @ '')''),
                  ConsoleLog (''Connected clients: '' @ show_nat (jsmap_size reg))]
      in if \<not> jsmap_has (socket_id socket) reg then
           \<lparr>connectedClients = jsmap_set (socket_id socket) info reg,
            effects = logs @
              [SocketEmit (socket_id socket) ''Connected to MetaMask automation server'',
               SocketOn (socket_id socket) ''disconnect'',
               SocketOn (socket_id socket) ''error'',
               SocketOn (socket_id socket) ''clientMessage'',
               SocketOn (socket_id socket) ''signMessageResult''],
            completion = Returned\<rparr>
         else
           \<lparr>connectedClients = reg,
            effects = logs @ [ConsoleLog (''Duplicate connection attempt from '' @ socket_id socket)],
            completion = Returned\<rparr>)"

definition on_disconnect :: "string \<Rightarrow> string \<Rightarrow> registry \<Rightarrow> outcome" where
  "on_disconnect sid reason reg =
     (let reg' = jsmap_delete sid reg
      in \<lparr>connectedClients = reg',
          effects = [ConsoleLog (''Client disconnected: '' @ sid @ '' (Reason: '' @ reason @ '')''),
                     ConsoleLog (''Remaining clients: '' @ show_nat (jsmap_size reg'))],
          completion = Returned\<rparr>)"

definition on_error :: "string \<Rightarrow> js_error \<Rightarrow> registry \<Rightarrow> outcome" where
  "on_error sid error reg =
     (let reg' = jsmap_delete sid reg
      in \<lparr>connectedClients = reg',
          effects = [ConsoleErrorData (''Socket error for '' @ sid @ '':'') error,
                     ConsoleLog (''Remaining clients after error: '' @ show_nat (jsmap_size reg'))],
          completion = Returned\<rparr>)"

definition on_clientMessage :: "string \<Rightarrow> json option \<Rightarrow> registry \<Rightarrow> outcome" where
  "on_clientMessage sid data reg =
     \<lparr>connectedClients = reg,
      effects = [ConsoleLogData (''Message from client '' @ sid @ '':'') data],
      completion = Returned\<rparr>"

text \<open>
  The substitution \<^verbatim>\<open>${data.name}\<close>: the property read, then the conversion.
\<close>

definition field_text :: "json option \<Rightarrow> string \<Rightarrow> js_error + string" where
  "field_text data name =
     (case read_field data name of Inl e \<Rightarrow> Inl e | Inr v \<Rightarrow> template v)"

text \<open>
  The two substitutions of the signature line,
  \<^verbatim>\<open>${data.signature?.substring(0, 20)}...${data.signature?.substring(data.signature.length - 10)}\<close>.
  The optional chain stops at a signature that is \<^verbatim>\<open>undefined\<close> or \<^verbatim>\<open>null\<close> and gives
  \<^verbatim>\<open>undefined\<close>; on any other value it calls the value's \<^verbatim>\<open>substring\<close>, which only a
  string has. \<^verbatim>\<open>substring\<close> clamps a negative start to 0.
\<close>

definition signature_text :: "json option \<Rightarrow> js_error + string" where
  "signature_text data =
     (case read_field data ''signature'' of
        Inl e \<Rightarrow> Inl e
      | Inr None \<Rightarrow> Inr ''undefined...undefined''
      | Inr (Some JNull) \<Rightarrow> Inr ''undefined...undefined''
      | Inr (Some (JStr s)) \<Rightarrow> Inr (take 20 s @ ''...'' @ drop (length s - 10) s)
      | Inr (Some _) \<Rightarrow> Inl (TypeError ''data.signature?.substring is not a function''))"

text \<open>
  The text of the acknowledgement,
  \<^verbatim>\<open>Signature received for message: "${data.message.substring(0, 30)}${data.message.length > 30 ? '...' : ''}"\<close>.
\<close>

definition acknowledgement :: "json option \<Rightarrow> js_error + string" where
  "acknowledgement data =
     (case read_field data ''message'' of
        Inl e \<Rightarrow> Inl e
      | Inr None \<Rightarrow> Inl (TypeError (''Cannot read properties of undefined (reading ''
                                 @ [CHR 0x27] @ ''substring'' @ [CHR 0x27] @ '')''))
      | Inr (Some JNull) \<Rightarrow> Inl (TypeError (''Cannot read properties of null (reading ''
                                       @ [CHR 0x27] @ ''substring'' @ [CHR 0x27] @ '')''))
      | Inr (Some (JStr s)) \<Rightarrow>
          Inr (''Signature received for message: '' @ [CHR 0x22] @ take 30 s
               @ (if length s > 30 then ''...'' else '''') @ [CHR 0x22])
      | Inr (Some _) \<Rightarrow> Inl (TypeError ''data.message.substring is not a function''))"

definition on_signMessageResult :: "string \<Rightarrow> json option \<Rightarrow> registry \<Rightarrow> outcome" where
  "on_signMessageResult sid data reg =
     (let r = run_steps
            [Inr (ConsoleLog (''Sign message result from '' @ sid @ '':'')),
             logging ''- Account: '' (field_text data ''account''),
             logging ''- Message: '' (field_text data ''message''),
             logging ''- Signature: '' (signature_text data),
             (case acknowledgement data of Inl e \<Rightarrow> Inl e | Inr str \<Rightarrow> Inr (SocketEmit sid str))]
      in \<lparr>connectedClients = reg,
          effects = fst r,
          completion = (case snd r of None \<Rightarrow> Returned | Some e \<Rightarrow> Uncaught e)\<rparr>)"

subsection \<open>The HTTP routes\<close>

definition get_status :: "registry \<Rightarrow> outcome" where
  "get_status reg =
     (let clientList = map (\<lambda>client. \<lparr>view_id = client_id client, connectedSince = connectedAt client\<rparr>)
                           (jsmap_values reg)
      in \<lparr>connectedClients = reg,
          effects = [ConsoleLog ''Status endpoint hit''],
          completion = Responded \<lparr>status_code = 200,
                                   body = StatusBody ''online'' (jsmap_size reg) clientList\<rparr>\<rparr>)"

text \<open>
  The message of a POST: \<^verbatim>\<open>req.body.message\<close> when \<^verbatim>\<open>req.body && req.body.message\<close> is
  truthy, the default string otherwise.
\<close>

definition default_message :: string where
  "default_message = ''Please sign this message from the server.''"

definition post_message :: "json option \<Rightarrow> json" where
  "post_message req_body =
     (case req_body of
        None \<Rightarrow> JStr default_message
      | Some b \<Rightarrow>
          (if truthy b then
             (case get_field b ''message'' of
                None \<Rightarrow> JStr default_message
              | Some m \<Rightarrow> if truthy m then m else JStr default_message)
           else JStr default_message))"

text \<open>
  The intercalation \<^verbatim>\<open>Array.from(connectedClients.keys()).join(', ')\<close> of strings.
\<close>

fun join_ids :: "string list \<Rightarrow> string" where
  "join_ids [] = ''''"
| "join_ids [x] = x"
| "join_ids (x # y # ys) = x @ '', '' @ join_ids (y # ys)"

text \<open>
  The statements inside \<^verbatim>\<open>try\<close>, the same in both routes, up to the response. The
  first one converts the message to a string and throws when that fails. \<open>io_emit\<close> is
  the behaviour of the Socket.IO call \<^verbatim>\<open>io.emit('triggerSign', messageData)\<close>: \<open>None\<close>
  when it returns, the exception when it throws. \<open>now\<close> is the value of
  \<^verbatim>\<open>Date.now()\<close>.
\<close>

definition broadcast :: "(messageData \<Rightarrow> js_error option) \<Rightarrow> json \<Rightarrow> nat \<Rightarrow> registry
    \<Rightarrow> effect list \<times> js_error option" where
  "broadcast io_emit msg now reg =
     (let messageId = show_nat now;
          data = \<lparr>message = msg, id_field = messageId\<rparr>
      in run_steps
           [logging (''Sending message to '' @ show_nat (jsmap_size reg) @ '' client(s): '') (to_string msg),
            Inr (ConsoleLog (''Client IDs receiving message: '' @ join_ids (jsmap_keys reg))),
            (case io_emit data of None \<Rightarrow> Inr (IoEmit data) | Some e \<Rightarrow> Inl e),
            Inr (ConsoleLog (''Message ID '' @ messageId @ '' broadcast to all clients''))])"

definition sent_response :: "nat \<Rightarrow> registry \<Rightarrow> response" where
  "sent_response now reg =
     \<lparr>status_code = 200,
      body = TriggerSent True (''Sign request sent to '' @ show_nat (jsmap_size reg) @ '' client(s)'')
               (jsmap_keys reg) (show_nat now)\<rparr>"

definition post_trigger_sign :: "(messageData \<Rightarrow> js_error option) \<Rightarrow> json option \<Rightarrow> nat
    \<Rightarrow> registry \<Rightarrow> outcome" where
  "post_trigger_sign io_emit req_body now reg =
     (let hit = ConsoleLog ''Trigger sign endpoint hit (POST)''
      in if jsmap_size reg = 0 then
           \<lparr>connectedClients = reg,
            effects = [hit, ConsoleLog ''No clients connected''],
            completion = Responded \<lparr>status_code = 404,
                                     body = TriggerRefused False ''No clients connected''\<rparr>\<rparr>
         else
           (let r = broadcast io_emit (post_message req_body) now reg
            in case snd r of
                 None \<Rightarrow>
                   \<lparr>connectedClients = reg,
                    effects = hit # fst r,
                    completion = Responded (sent_response now reg)\<rparr>
               | Some error \<Rightarrow>
                   \<lparr>connectedClients = reg,
                    effects = hit # fst r @ [ConsoleErrorData ''Error in trigger-sign (POST):'' error],
                    completion = Responded \<lparr>status_code = 500,
                       body = TriggerFailed False ''Server error'' (error_message error)\<rparr>\<rparr>))"

text \<open>
  The GET route builds its message from \<open>iso_time\<close>, the value of
  \<^verbatim>\<open>new Date().toISOString()\<close>.
\<close>

definition get_message :: "string \<Rightarrow> string" where
  "get_message iso_time = ''Please sign this message triggered via GET from the frontend at '' @ iso_time"

definition get_trigger_sign :: "(messageData \<Rightarrow> js_error option) \<Rightarrow> string \<Rightarrow> nat
    \<Rightarrow> registry \<Rightarrow> outcome" where
  "get_trigger_sign io_emit iso_time now reg =
     (let hit = ConsoleLog ''Trigger sign endpoint hit (GET)''
      in if jsmap_size reg = 0 then
           \<lparr>connectedClients = reg,
            effects = [hit, ConsoleLog ''No clients connected''],
            completion = Responded \<lparr>status_code = 404,
                                     body = TriggerRefused False ''No clients connected''\<rparr>\<rparr>
         else
           (let r = broadcast io_emit (JStr (get_message iso_time)) now reg
            in case snd r of
                 None \<Rightarrow>
                   \<lparr>connectedClients = reg,
                    effects = hit # fst r,
                    completion = Responded (sent_response now reg)\<rparr>
               | Some error \<Rightarrow>
                   \<lparr>connectedClients = reg,
                    effects = hit # fst r @ [ConsoleErrorData ''Error in trigger-sign (GET):'' error],
                    completion = Responded \<lparr>status_code = 500,
                       body = TriggerFailed False ''Server error'' (error_message error)\<rparr>\<rparr>))"

subsection \<open>The body parser in front of the routes\<close>





subsection \<open>Starting the server\<close>

text \<open>
  \<^verbatim>\<open>const PORT = process.env.PORT || 3000\<close>, as the templates render it: the
  environment variable when it is set and not empty, \<^verbatim>\<open>3000\<close> otherwise.
\<close>

definition PORT :: "string option \<Rightarrow> string" where
  "PORT env_port = (case env_port of None \<Rightarrow> ''3000'' | Some p \<Rightarrow> if p \<noteq> [] then p else ''3000'')"

definition on_listening :: "string \<Rightarrow> registry \<Rightarrow> outcome" where
  "on_listening port reg =
     \<lparr>connectedClients = reg,
      effects = [ConsoleLog (''Server is running on port '' @ port),
                 ConsoleLog (''Open http://localhost:'' @ port @ '' to view the MetaMask demo'')],
      completion = Returned\<rparr>"

text \<open>The \<^verbatim>\<open>error\<close> listener chained to \<^verbatim>\<open>server.listen\<close>; both branches end the process.\<close>

definition on_listen_error :: "string \<Rightarrow> js_error \<Rightarrow> registry \<Rightarrow> outcome" where
  "on_listen_error port error reg =
     (if error_code error = Some ''EADDRINUSE'' then
        \<lparr>connectedClients = reg,
         effects = [ConsoleError (''Port '' @ port @ '' is already in use. Please:\<newline>''
                      @ ''1. Stop any other process using port '' @ port @ '', or\<newline>''
                      @ ''2. Use a different port by setting the PORT environment variable'')],
         completion = Exited 1\<rparr>
      else
        \<lparr>connectedClients = reg,
         effects = [ConsoleErrorData ''Error starting server:'' error],
         completion = Exited 1\<rparr>)"

subsection \<open>Events and runs of the server\<close>

text \<open>
  One constructor for each handler invocation, with what the handler reads: the clock
  values, the socket or its id, the event data, the request body. A \<open>Disconnect\<close>,
  \<open>SocketError\<close>, \<open>ClientMessage\<close> or \<open>SignMessageResult\<close> is the invocation of a
  listener that \<open>on_connection\<close> attached to the socket with that id.
\<close>

datatype event =
    Connection nat socket
  | Disconnect string string
  | SocketError string js_error
  | ClientMessage string "json option"
  | SignMessageResult string "json option"
  | GetStatus
  | PostTriggerSign "json option" nat
  | GetTriggerSign string nat
  | Listening
  | ListenError js_error

fun handle :: "(messageData \<Rightarrow> js_error option) \<Rightarrow> string option \<Rightarrow> event \<Rightarrow> registry \<Rightarrow> outcome" where
  "handle io_emit env_port (Connection now socket) reg = on_connection now socket reg"
| "handle io_emit env_port (Disconnect sid reason) reg = on_disconnect sid reason reg"
| "handle io_emit env_port (SocketError sid error) reg = on_error sid error reg"
| "handle io_emit env_port (ClientMessage sid data) reg = on_clientMessage sid data reg"
| "handle io_emit env_port (SignMessageResult sid data) reg = on_signMessageResult sid data reg"
| "handle io_emit env_port GetStatus reg = get_status reg"
| "handle io_emit env_port (PostTriggerSign req_body now) reg = post_trigger_sign io_emit req_body now reg"
| "handle io_emit env_port (GetTriggerSign iso_time now) reg = get_trigger_sign io_emit iso_time now reg"
| "handle io_emit env_port Listening reg = on_listening (PORT env_port) reg"
| "handle io_emit env_port (ListenError error) reg = on_listen_error (PORT env_port) error reg"

text \<open>
  The table after a sequence of events. The process is gone after a handler that exits
  or lets an exception escape, so the events behind it are not handled.
\<close>

fun run :: "(messageData \<Rightarrow> js_error option) \<Rightarrow> string option \<Rightarrow> registry \<Rightarrow> event list \<Rightarrow> registry" where
  "run io_emit env_port reg [] = reg"
| "run io_emit env_port reg (ev # evs) =
     (let out = handle io_emit env_port ev reg
      in case completion out of
           Uncaught e \<Rightarrow> connectedClients out
         | Exited n \<Rightarrow> connectedClients out
         | _ \<Rightarrow> run io_emit env_port (connectedClients out) evs)"

subsection \<open>What the sockets receive\<close>

text \<open>
  Socket.IO delivers \<^verbatim>\<open>socket.emit\<close> to that socket and \<^verbatim>\<open>io.emit\<close> to every socket
  connected to the namespace, one packet each. \<open>sockets\<close> lists the ids of the sockets
  connected at the time of the call.
\<close>

datatype packet =
    ServerMessage string
  | TriggerSign messageData

fun deliver :: "string list \<Rightarrow> effect \<Rightarrow> (string \<times> packet) list" where
  "deliver sockets (IoEmit d) = map (\<lambda>s. (s, TriggerSign d)) sockets"
| "deliver sockets (SocketEmit s text) = [(s, ServerMessage text)]"
| "deliver sockets _ = []"

definition received :: "string list \<Rightarrow> effect list \<Rightarrow> string \<Rightarrow> packet list" where
  "received sockets effs s =
     map snd (filter (\<lambda>p. fst p = s) (concat (map (deliver sockets) effs)))"

text \<open>The payloads of the broadcasts among the calls of a handler.\<close>

fun broadcasts :: "effect list \<Rightarrow> messageData list" where
  "broadcasts [] = []"
| "broadcasts (IoEmit d # effs) = d # broadcasts effs"
| "broadcasts (_ # effs) = broadcasts effs"

text \<open>The messages a handler sent to the socket with id \<open>s\<close> through \<^verbatim>\<open>socket.emit\<close>.\<close>

fun server_messages :: "string \<Rightarrow> effect list \<Rightarrow> string list" where
  "server_messages s [] = []"
| "server_messages s (SocketEmit t text # effs) =
     (if t = s then text # server_messages s effs else server_messages s effs)"
| "server_messages s (_ # effs) = server_messages s effs"

subsection \<open>Example values\<close>

text \<open>Two connection records, two tables and two sockets, for running statements on an input.\<close>

abbreviation info_A :: clientInfo where
  "info_A \<equiv> \<lparr>client_id = ''A'', ip = ''10.0.0.1'', userAgent = None, connectedAt = 1000\<rparr>"

abbreviation info_B :: clientInfo where
  "info_B \<equiv> \<lparr>client_id = ''B'', ip = ''10.0.0.2'', userAgent = Some ''Mozilla/5.0'', connectedAt = 2000\<rparr>"

abbreviation registry_A :: registry where
  "registry_A \<equiv> [(''A'', info_A)]"

abbreviation registry_AB :: registry where
  "registry_AB \<equiv> [(''A'', info_A), (''B'', info_B)]"

abbreviation socket_A :: socket where
  "socket_A \<equiv> \<lparr>socket_id = ''A'', handshake_address = ''10.0.0.1'', handshake_user_agent = None\<rparr>"

abbreviation socket_B :: socket where
  "socket_B \<equiv> \<lparr>socket_id = ''B'', handshake_address = ''10.0.0.2'',
                 handshake_user_agent = Some ''Mozilla/5.0''\<rparr>"

section \<open>Properties\<close>

subsection \<open>The table keeps one entry for a key\<close>

lemma jsmap_delete_twice: "jsmap_delete k (jsmap_delete k m) = jsmap_delete k m"
  by (simp add: jsmap_delete_def)

lemma jsmap_delete_absent: "\<not> jsmap_has k m \<Longrightarrow> jsmap_delete k m = m"
  by (induction m) (auto simp: jsmap_delete_def jsmap_has_def split: if_splits)

lemma jsmap_has_delete: "\<not> jsmap_has k (jsmap_delete k m)"
  by (induction m) (auto simp: jsmap_delete_def jsmap_has_def)

lemma jsmap_has_keys: "jsmap_has k m \<longleftrightarrow> k \<in> set (jsmap_keys m)"
  by (simp add: jsmap_has_def jsmap_keys_def map_of_eq_None_iff)

lemma keys_jsmap_set: "set (jsmap_keys (jsmap_set k v m)) = insert k (set (jsmap_keys m))"
  by (induction m) (auto simp: jsmap_keys_def)

lemma distinct_jsmap_set: "distinct (jsmap_keys m) \<Longrightarrow> distinct (jsmap_keys (jsmap_set k v m))"
proof (induction m)
  case Nil
  then show ?case by (simp add: jsmap_keys_def)
next
  case (Cons p ps)
  have "fst p \<noteq> k \<Longrightarrow> fst p \<notin> set (jsmap_keys (jsmap_set k v ps))"
    using Cons.prems by (simp add: keys_jsmap_set) (simp add: jsmap_keys_def)
  with Cons show ?case by (auto simp: jsmap_keys_def)
qed

lemma distinct_jsmap_delete: "distinct (jsmap_keys m) \<Longrightarrow> distinct (jsmap_keys (jsmap_delete k m))"
  by (simp add: jsmap_keys_def jsmap_delete_def distinct_map_filter)

lemma jsmap_set_absent: "\<not> jsmap_has k m \<Longrightarrow> jsmap_set k v m = m @ [(k, v)]"
  by (induction m) (auto simp: jsmap_has_def split: if_splits)

lemma handle_distinct: "distinct (jsmap_keys reg) \<Longrightarrow> distinct (jsmap_keys (connectedClients (handle io_emit env_port ev reg)))"
  by (cases ev)
     (simp_all add: on_connection_def on_disconnect_def on_error_def on_clientMessage_def
        on_signMessageResult_def get_status_def post_trigger_sign_def get_trigger_sign_def
        on_listening_def on_listen_error_def Let_def distinct_jsmap_set distinct_jsmap_delete
        split: option.split)

lemma run_distinct: "distinct (jsmap_keys reg) \<Longrightarrow> distinct (jsmap_keys (run io_emit env_port reg evs))"
proof (induction evs arbitrary: reg)
  case Nil
  then show ?case by simp
next
  case (Cons ev evs)
  have d: "distinct (jsmap_keys (connectedClients (handle io_emit env_port ev reg)))"
    using Cons.prems by (rule handle_distinct)
  show ?case
    using d Cons.IH [OF d] by (simp add: Let_def split: completion.split)
qed

lemma run_connect_new:
  "\<not> jsmap_has (socket_id socket) reg \<Longrightarrow>
   run io_emit env_port reg (Connection now socket # evs) =
     run io_emit env_port
       (reg @ [(socket_id socket, \<lparr>client_id = socket_id socket, ip = handshake_address socket,
                 userAgent = handshake_user_agent socket, connectedAt = now\<rparr>)]) evs"
  by (simp add: on_connection_def Let_def jsmap_set_absent)

lemma run_disconnect:
  "run io_emit env_port reg (Disconnect sid reason # evs) = run io_emit env_port (jsmap_delete sid reg) evs"
  by (simp add: on_disconnect_def Let_def)

subsection \<open>Which handlers write the table\<close>

lemma post_frame: "connectedClients (post_trigger_sign io_emit req_body now reg) = reg"
  by (simp add: post_trigger_sign_def Let_def split: option.split)

lemma get_frame: "connectedClients (get_trigger_sign io_emit iso_time now reg) = reg"
  by (simp add: get_trigger_sign_def Let_def split: option.split)

lemma status_frame: "connectedClients (get_status reg) = reg"
  by (simp add: get_status_def)

lemma sign_result_frame: "connectedClients (on_signMessageResult sid data reg) = reg"
  by (simp add: on_signMessageResult_def Let_def)

lemma listen_error_frame: "connectedClients (on_listen_error port error reg) = reg"
  by (simp add: on_listen_error_def)

lemma handle_frame:
  "connectedClients (handle io_emit env_port ev reg) \<noteq> reg \<Longrightarrow>
     (\<exists>now socket. ev = Connection now socket) \<or> (\<exists>sid reason. ev = Disconnect sid reason)
     \<or> (\<exists>sid error. ev = SocketError sid error)"
  by (cases ev)
     (simp_all add: on_clientMessage_def post_frame get_frame status_frame sign_result_frame
        listen_error_frame on_listening_def)

subsection \<open>The statements inside try\<close>

lemma broadcast_ok:
  "to_string msg = Inr str \<Longrightarrow> io_emit \<lparr>message = msg, id_field = show_nat now\<rparr> = None \<Longrightarrow>
   broadcast io_emit msg now reg =
     ([ConsoleLog (''Sending message to '' @ show_nat (jsmap_size reg) @ '' client(s): '' @ str),
       ConsoleLog (''Client IDs receiving message: '' @ join_ids (jsmap_keys reg)),
       IoEmit \<lparr>message = msg, id_field = show_nat now\<rparr>,
       ConsoleLog (''Message ID '' @ show_nat now @ '' broadcast to all clients'')], None)"
  by (simp add: broadcast_def logging_def Let_def)

lemma broadcast_construct_fails:
  "to_string msg = Inl e \<Longrightarrow> broadcast io_emit msg now reg = ([], Some e)"
  by (simp add: broadcast_def logging_def Let_def)

lemma broadcast_send_fails:
  "to_string msg = Inr str \<Longrightarrow> io_emit \<lparr>message = msg, id_field = show_nat now\<rparr> = Some e \<Longrightarrow>
   broadcast io_emit msg now reg =
     ([ConsoleLog (''Sending message to '' @ show_nat (jsmap_size reg) @ '' client(s): '' @ str),
       ConsoleLog (''Client IDs receiving message: '' @ join_ids (jsmap_keys reg))], Some e)"
  by (simp add: broadcast_def logging_def Let_def)

lemma deliver_once:
  "distinct sockets \<Longrightarrow> s \<in> set sockets \<Longrightarrow>
   map snd (filter (\<lambda>p. fst p = s) (map (\<lambda>t. (t, x)) sockets)) = [x]"
proof (induction sockets)
  case Nil
  then show ?case by simp
next
  case (Cons t ts)
  show ?case
  proof (cases "t = s")
    case True
    with Cons.prems have "s \<notin> set ts" by simp
    then have "filter (\<lambda>p. fst p = s) (map (\<lambda>t. (t, x)) ts) = []"
      by (induction ts) auto
    with True show ?thesis by simp
  next
    case False
    with Cons show ?thesis by simp
  qed
qed

lemma post_responds: "\<exists>r. completion (post_trigger_sign io_emit req_body now reg) = Responded r"
  by (simp add: post_trigger_sign_def Let_def split: option.split)

lemma get_responds: "\<exists>r. completion (get_trigger_sign io_emit iso_time now reg) = Responded r"
  by (simp add: get_trigger_sign_def Let_def split: option.split)

lemma post_message_field:
  "truthy b \<Longrightarrow> get_field b ''message'' = Some m \<Longrightarrow> truthy m \<Longrightarrow> post_message (Some b) = m"
  by (simp add: post_message_def)

lemma post_message_default:
  "req_body = None \<or> (\<exists>b. req_body = Some b \<and> (\<not> truthy b \<or> get_field b ''message'' = None
      \<or> (\<exists>m. get_field b ''message'' = Some m \<and> \<not> truthy m))) \<Longrightarrow>
   post_message req_body = JStr ''Please sign this message from the server.''"
  by (auto simp: post_message_def default_message_def)

lemma post_broadcasts:
  "jsmap_size reg \<noteq> 0 \<Longrightarrow> to_string (post_message req_body) = Inr str \<Longrightarrow>
   io_emit \<lparr>message = post_message req_body, id_field = show_nat now\<rparr> = None \<Longrightarrow>
   broadcasts (effects (post_trigger_sign io_emit req_body now reg)) =
     [\<lparr>message = post_message req_body, id_field = show_nat now\<rparr>]"
  using broadcast_ok [of "post_message req_body" str io_emit now reg]
  by (simp add: post_trigger_sign_def Let_def)

subsection \<open>The body parser and the empty table\<close>





subsection \<open>The signature report\<close>

lemma logging_cases:
  "(\<exists>e. logging prefix t = Inl e) \<or> (\<exists>s. logging prefix t = Inr (ConsoleLog s))"
  by (cases t) (simp_all add: logging_def)

lemma run_steps_throw:
  "snd (run_steps (steps @ [Inl e])) \<noteq> None"
  by (induction steps rule: run_steps.induct) simp_all

lemma run_steps_silent:
  "\<forall>x \<in> set steps. (\<exists>e. x = Inl e) \<or> (\<exists>s. x = Inr (ConsoleLog s)) \<Longrightarrow>
   server_messages sid (fst (run_steps steps)) = []"
  by (induction steps rule: run_steps.induct) auto

lemma sign_result_throws:
  assumes "acknowledgement data = Inl e"
  shows "(\<exists>e'. completion (on_signMessageResult sid data reg) = Uncaught e')
       \<and> server_messages sid (effects (on_signMessageResult sid data reg)) = []"
proof -
  let ?steps = "[Inr (ConsoleLog (''Sign message result from '' @ sid @ '':'')),
                 logging ''- Account: '' (field_text data ''account''),
                 logging ''- Message: '' (field_text data ''message''),
                 logging ''- Signature: '' (signature_text data)]"
  have eq: "on_signMessageResult sid data reg =
     \<lparr>connectedClients = reg, effects = fst (run_steps (?steps @ [Inl e])),
      completion = (case snd (run_steps (?steps @ [Inl e])) of None \<Rightarrow> Returned | Some e \<Rightarrow> Uncaught e)\<rparr>"
    using assms unfolding on_signMessageResult_def Let_def by simp
  have thrown: "snd (run_steps (?steps @ [Inl e])) \<noteq> None"
    by (rule run_steps_throw)
  have "\<forall>x \<in> set (?steps @ [Inl e]). (\<exists>e. x = Inl e) \<or> (\<exists>s. x = Inr (ConsoleLog s))"
    using logging_cases by simp
  then have silent: "server_messages sid (fst (run_steps (?steps @ [Inl e]))) = []"
    by (rule run_steps_silent)
  from thrown obtain e' where "snd (run_steps (?steps @ [Inl e])) = Some e'" by blast
  with silent show ?thesis unfolding eq by simp
qed

lemma acknowledgement_not_string:
  assumes "\<not> (\<exists>j s. data = Some j \<and> get_field j ''message'' = Some (JStr s))"
  shows "\<exists>e. acknowledgement data = Inl e"
proof (cases data)
  case None
  then show ?thesis by (simp add: acknowledgement_def read_field_def)
next
  case (Some j)
  show ?thesis
  proof (cases "j = JNull")
    case True
    with Some show ?thesis by (simp add: acknowledgement_def read_field_def)
  next
    case False
    then have r: "read_field data ''message'' = Inr (get_field j ''message'')"
      using Some by (cases j) (simp_all add: read_field_def)
    show ?thesis
    proof (cases "get_field j ''message''")
      case None
      with r show ?thesis by (simp add: acknowledgement_def)
    next
      case (Some v)
      with assms \<open>data = Some j\<close> have "\<forall>s. v \<noteq> JStr s" by auto
      with r Some show ?thesis by (cases v) (simp_all add: acknowledgement_def)
    qed
  qed
qed

lemma read_field_object:
  "get_field j name = Some v \<Longrightarrow> read_field (Some j) name = Inr (Some v)"
  by (cases j) (simp_all add: read_field_def)

lemma sign_result_ok:
  assumes msg: "get_field j ''message'' = Some (JStr s)"
    and acc: "field_text (Some j) ''account'' = Inr a"
    and sg: "get_field j ''signature'' = None \<or> get_field j ''signature'' = Some JNull
             \<or> (\<exists>g. get_field j ''signature'' = Some (JStr g))"
  shows "completion (on_signMessageResult sid (Some j) reg) = Returned
       \<and> server_messages sid (effects (on_signMessageResult sid (Some j) reg)) =
           [''Signature received for message: '' @ [CHR 0x22] @ take 30 s
              @ (if 30 < length s then ''...'' else '''') @ [CHR 0x22]]"
proof -
  have obj: "\<exists>ps. j = JObj ps" using msg by (cases j) simp_all
  have m: "field_text (Some j) ''message'' = Inr s"
    using msg by (simp add: field_text_def read_field_object template_def)
  have ack: "acknowledgement (Some j) = Inr (''Signature received for message: '' @ [CHR 0x22] @ take 30 s
              @ (if 30 < length s then ''...'' else '''') @ [CHR 0x22])"
    using msg by (simp add: acknowledgement_def read_field_object)
  have "\<exists>t. signature_text (Some j) = Inr t"
    using sg obj by (auto simp: signature_text_def read_field_def)
  then obtain t where t: "signature_text (Some j) = Inr t" ..
  show ?thesis
    using m ack t acc by (simp add: on_signMessageResult_def logging_def Let_def)
qed

lemma sign_result_not_exited: "completion (on_signMessageResult sid data reg) \<noteq> Exited n"
  by (simp add: on_signMessageResult_def Let_def split: option.split)

lemma post_not_exited: "completion (post_trigger_sign io_emit req_body now reg) \<noteq> Exited n"
  using post_responds [of io_emit req_body now reg] by auto

lemma get_not_exited: "completion (get_trigger_sign io_emit iso_time now reg) \<noteq> Exited n"
  using get_responds [of io_emit iso_time now reg] by auto

section \<open>The claims of the specification\<close>

subsection \<open>C1: a trigger with registered connections\<close>

text \<open>
  Claim C1, as the code has it. A POST or GET to \<^verbatim>\<open>/api/trigger-sign\<close> made while
  \<open>k \<ge> 1\<close> connections are registered, and during which nothing throws (the message
  converts to a string and \<^verbatim>\<open>io.emit\<close> returns), is answered 200 with
  \<^verbatim>\<open>success: true\<close>, the message \<^verbatim>\<open>Sign request sent to k client(s)\<close>, the \<open>k\<close>
  registered ids as \<^verbatim>\<open>clients\<close> and a \<^verbatim>\<open>messageId\<close>; and every registered connection,
  the registered sockets being connected to the namespace, receives exactly one
  \<^verbatim>\<open>triggerSign\<close> packet, whose message is the one that was broadcast.
\<close>

theorem trigger_sign_success:
  assumes k: "jsmap_size reg = k" and k1: "1 \<le> k"
    and socks: "distinct sockets" "set (jsmap_keys reg) \<subseteq> set sockets"
  shows "(\<forall>str. to_string (post_message req_body) = Inr str
            \<and> io_emit \<lparr>message = post_message req_body, id_field = show_nat now\<rparr> = None \<longrightarrow>
            completion (post_trigger_sign io_emit req_body now reg) =
              Responded \<lparr>status_code = 200,
                body = TriggerSent True (''Sign request sent to '' @ show_nat k @ '' client(s)'')
                         (jsmap_keys reg) (show_nat now)\<rparr>
            \<and> (\<forall>s. jsmap_has s reg \<longrightarrow>
                  received sockets (effects (post_trigger_sign io_emit req_body now reg)) s =
                    [TriggerSign \<lparr>message = post_message req_body, id_field = show_nat now\<rparr>]))
       \<and> (io_emit \<lparr>message = JStr (get_message iso_time), id_field = show_nat now\<rparr> = None \<longrightarrow>
            completion (get_trigger_sign io_emit iso_time now reg) =
              Responded \<lparr>status_code = 200,
                body = TriggerSent True (''Sign request sent to '' @ show_nat k @ '' client(s)'')
                         (jsmap_keys reg) (show_nat now)\<rparr>
            \<and> (\<forall>s. jsmap_has s reg \<longrightarrow>
                  received sockets (effects (get_trigger_sign io_emit iso_time now reg)) s =
                    [TriggerSign \<lparr>message = JStr (get_message iso_time), id_field = show_nat now\<rparr>]))
       \<and> length (jsmap_keys reg) = k
       \<and> (\<forall>s. s \<in> set (jsmap_keys reg) \<longleftrightarrow> jsmap_has s reg)"
proof -
  have nz: "jsmap_size reg \<noteq> 0" using k k1 by simp
  have once: "map snd (filter (\<lambda>p. fst p = s) (map (\<lambda>t. (t, x)) sockets)) = [x]"
    if "jsmap_has s reg" for s and x :: packet
    using that socks deliver_once [of sockets s x] by (auto simp: jsmap_has_keys)
  have post: "completion (post_trigger_sign io_emit req_body now reg) =
              Responded \<lparr>status_code = 200,
                body = TriggerSent True (''Sign request sent to '' @ show_nat k @ '' client(s)'')
                         (jsmap_keys reg) (show_nat now)\<rparr>
            \<and> (\<forall>s. jsmap_has s reg \<longrightarrow>
                  received sockets (effects (post_trigger_sign io_emit req_body now reg)) s =
                    [TriggerSign \<lparr>message = post_message req_body, id_field = show_nat now\<rparr>])"
    if "to_string (post_message req_body) = Inr str"
      "io_emit \<lparr>message = post_message req_body, id_field = show_nat now\<rparr> = None" for str
    using nz k once that
      broadcast_ok [of "post_message req_body" str io_emit now reg]
    by (simp add: post_trigger_sign_def Let_def sent_response_def received_def)
  have get: "completion (get_trigger_sign io_emit iso_time now reg) =
              Responded \<lparr>status_code = 200,
                body = TriggerSent True (''Sign request sent to '' @ show_nat k @ '' client(s)'')
                         (jsmap_keys reg) (show_nat now)\<rparr>
            \<and> (\<forall>s. jsmap_has s reg \<longrightarrow>
                  received sockets (effects (get_trigger_sign io_emit iso_time now reg)) s =
                    [TriggerSign \<lparr>message = JStr (get_message iso_time), id_field = show_nat now\<rparr>])"
    if "io_emit \<lparr>message = JStr (get_message iso_time), id_field = show_nat now\<rparr> = None"
    using nz k once broadcast_ok [of "JStr (get_message iso_time)" "get_message iso_time" io_emit now reg] that
    by (simp add: get_trigger_sign_def Let_def sent_response_def received_def)
  have len: "length (jsmap_keys reg) = k"
    using k by (simp add: jsmap_size_def jsmap_keys_def)
  show ?thesis
    using post get len by (simp add: jsmap_has_keys)
qed

text \<open>
  The statement at two registered connections, for a POST with the body
  \<^verbatim>\<open>{message: "m1"}\<close> and for a GET.
\<close>

theorem trigger_sign_success_witness:
  "jsmap_size registry_AB = 2
   \<and> completion (post_trigger_sign (\<lambda>d. None) (Some (JObj [(''message'', JStr ''m1'')])) 42
         registry_AB) =
       Responded \<lparr>status_code = 200,
         body = TriggerSent True ''Sign request sent to 2 client(s)'' [''A'', ''B''] ''42''\<rparr>
   \<and> received [''A'', ''B''] (effects (post_trigger_sign (\<lambda>d. None) (Some (JObj [(''message'', JStr ''m1'')])) 42
         registry_AB)) ''B'' =
       [TriggerSign \<lparr>message = JStr ''m1'', id_field = ''42''\<rparr>]
   \<and> received [''A'', ''B''] (effects (get_trigger_sign (\<lambda>d. None) ''2025-01-01T00:00:00.000Z'' 42
         registry_AB)) ''A'' =
       [TriggerSign \<lparr>message = JStr ''Please sign this message triggered via GET from the frontend at 2025-01-01T00:00:00.000Z'',
                     id_field = ''42''\<rparr>]"
  using trigger_sign_success [where reg = "registry_AB"
      and k = 2 and sockets = "[''A'', ''B'']" and io_emit = "\<lambda>d. None"
      and req_body = "Some (JObj [(''message'', JStr ''m1'')])" and now = 42
      and iso_time = "''2025-01-01T00:00:00.000Z''"]
  by (simp add: jsmap_size_def jsmap_keys_def jsmap_has_def post_message_def get_message_def
      show_nat.simps)

text \<open>
  Without the condition on exceptions the claim fails. With one connection registered,
  the POST body \<^verbatim>\<open>{"message": {"toString": null}}\<close> gives a truthy message whose
  conversion in the first template literal inside \<^verbatim>\<open>try\<close> throws a \<^verbatim>\<open>TypeError\<close>: the
  answer is 500 and no socket receives a packet.
\<close>

theorem trigger_sign_success_counterexample:
  "jsmap_size registry_A = 1
   \<and> completion (post_trigger_sign (\<lambda>d. None)
         (Some (JObj [(''message'', JObj [(''toString'', JNull)])])) 42
         registry_A) =
       Responded \<lparr>status_code = 500,
         body = TriggerFailed False ''Server error'' ''Cannot convert object to primitive value''\<rparr>
   \<and> received [''A''] (effects (post_trigger_sign (\<lambda>d. None)
         (Some (JObj [(''message'', JObj [(''toString'', JNull)])])) 42
         registry_A)) ''A'' = []"
  by (simp add: post_trigger_sign_def broadcast_def logging_def post_message_def jsmap_size_def
      received_def TypeError_def Let_def)

subsection \<open>C2: a trigger with no registered connection\<close>




subsection \<open>C3: the message of a POST\<close>

text \<open>
  Claim C3, as the code has it. For a POST with at least one registered connection during
  which nothing throws, the one broadcast carries the body's \<^verbatim>\<open>message\<close> when that
  field is present and truthy, and the default string
  \<^verbatim>\<open>Please sign this message from the server.\<close> when there is no body, no such field,
  or a falsy one (the empty string, 0, \<^verbatim>\<open>false\<close>, \<^verbatim>\<open>null\<close>); the body
  \<^verbatim>\<open>{message: "Sign XYZ"}\<close> broadcasts exactly \<^verbatim>\<open>Sign XYZ\<close>.
\<close>

theorem post_trigger_sign_message:
  assumes "jsmap_size reg \<noteq> 0"
  shows "(\<forall>b m str. req_body = Some b \<and> truthy b \<and> get_field b ''message'' = Some m \<and> truthy m
            \<and> to_string m = Inr str \<and> io_emit \<lparr>message = m, id_field = show_nat now\<rparr> = None \<longrightarrow>
            broadcasts (effects (post_trigger_sign io_emit req_body now reg)) =
              [\<lparr>message = m, id_field = show_nat now\<rparr>])
       \<and> ((req_body = None \<or> (\<exists>b. req_body = Some b \<and> (\<not> truthy b \<or> get_field b ''message'' = None
                \<or> (\<exists>m. get_field b ''message'' = Some m \<and> \<not> truthy m))))
            \<and> io_emit \<lparr>message = JStr ''Please sign this message from the server.'',
                        id_field = show_nat now\<rparr> = None \<longrightarrow>
            broadcasts (effects (post_trigger_sign io_emit req_body now reg)) =
              [\<lparr>message = JStr ''Please sign this message from the server.'', id_field = show_nat now\<rparr>])
       \<and> (req_body = Some (JObj [(''message'', JStr ''Sign XYZ'')])
            \<and> io_emit \<lparr>message = JStr ''Sign XYZ'', id_field = show_nat now\<rparr> = None \<longrightarrow>
            broadcasts (effects (post_trigger_sign io_emit req_body now reg)) =
              [\<lparr>message = JStr ''Sign XYZ'', id_field = show_nat now\<rparr>])"
proof (intro conjI allI impI)
  fix b m str
  assume h: "req_body = Some b \<and> truthy b \<and> get_field b ''message'' = Some m \<and> truthy m
            \<and> to_string m = Inr str \<and> io_emit \<lparr>message = m, id_field = show_nat now\<rparr> = None"
  then have "post_message req_body = m" by (simp add: post_message_field)
  with h assms show "broadcasts (effects (post_trigger_sign io_emit req_body now reg)) =
              [\<lparr>message = m, id_field = show_nat now\<rparr>]"
    using post_broadcasts [of reg req_body str io_emit now] by simp
next
  assume h: "(req_body = None \<or> (\<exists>b. req_body = Some b \<and> (\<not> truthy b \<or> get_field b ''message'' = None
                \<or> (\<exists>m. get_field b ''message'' = Some m \<and> \<not> truthy m))))
            \<and> io_emit \<lparr>message = JStr ''Please sign this message from the server.'',
                        id_field = show_nat now\<rparr> = None"
  then have "post_message req_body = JStr ''Please sign this message from the server.''"
    using post_message_default [of req_body] by blast
  with h assms show "broadcasts (effects (post_trigger_sign io_emit req_body now reg)) =
              [\<lparr>message = JStr ''Please sign this message from the server.'', id_field = show_nat now\<rparr>]"
    using post_broadcasts [of reg req_body "''Please sign this message from the server.''" io_emit now]
    by simp
next
  assume h: "req_body = Some (JObj [(''message'', JStr ''Sign XYZ'')])
            \<and> io_emit \<lparr>message = JStr ''Sign XYZ'', id_field = show_nat now\<rparr> = None"
  then have "post_message req_body = JStr ''Sign XYZ''" by (simp add: post_message_def)
  with h assms show "broadcasts (effects (post_trigger_sign io_emit req_body now reg)) =
              [\<lparr>message = JStr ''Sign XYZ'', id_field = show_nat now\<rparr>]"
    using post_broadcasts [of reg req_body "''Sign XYZ''" io_emit now] by simp
qed

text \<open>
  The statement at the bodies \<^verbatim>\<open>{message: "Sign XYZ"}\<close> and \<^verbatim>\<open>{}\<close>.
\<close>

theorem post_trigger_sign_message_witness:
  "jsmap_size registry_A \<noteq> 0
   \<and> broadcasts (effects (post_trigger_sign (\<lambda>d. None) (Some (JObj [(''message'', JStr ''Sign XYZ'')])) 42
         registry_A)) =
       [\<lparr>message = JStr ''Sign XYZ'', id_field = ''42''\<rparr>]
   \<and> broadcasts (effects (post_trigger_sign (\<lambda>d. None) (Some (JObj [])) 42
         registry_A)) =
       [\<lparr>message = JStr ''Please sign this message from the server.'', id_field = ''42''\<rparr>]"
  using post_trigger_sign_message [where reg = "registry_A"
      and io_emit = "\<lambda>d. None" and req_body = "Some (JObj [(''message'', JStr ''Sign XYZ'')])" and now = 42]
    post_trigger_sign_message [where reg = "registry_A"
      and io_emit = "\<lambda>d. None" and req_body = "Some (JObj [])" and now = 42]
  by (simp add: jsmap_size_def show_nat.simps)

text \<open>
  A field that is present is not always the one broadcast: the body \<^verbatim>\<open>{message: ""}\<close>
  has the field, the test \<^verbatim>\<open>req.body && req.body.message\<close> finds it falsy, and the
  default string goes out.
\<close>

theorem post_trigger_sign_message_counterexample:
  "get_field (JObj [(''message'', JStr '''')]) ''message'' = Some (JStr '''')
   \<and> broadcasts (effects (post_trigger_sign (\<lambda>d. None) (Some (JObj [(''message'', JStr '''')])) 42
         registry_A)) =
       [\<lparr>message = JStr ''Please sign this message from the server.'', id_field = ''42''\<rparr>]
   \<and> JStr ''Please sign this message from the server.'' \<noteq> JStr ''''"
  by (simp add: post_trigger_sign_def broadcast_def logging_def post_message_def jsmap_size_def
      default_message_def Let_def show_nat.simps)

subsection \<open>C4: a duplicate connection\<close>

text \<open>
  Claim C4. After every sequence of events from the empty table, no id has two records;
  and a \<^verbatim>\<open>connection\<close> event for an id that is already in the table leaves the table,
  the record stored for that id and the size as they were, and sends no
  \<^verbatim>\<open>serverMessage\<close> to that socket.
\<close>

theorem duplicate_connection_ignored:
  "distinct (jsmap_keys (run io_emit env_port [] evs))
   \<and> (jsmap_has (socket_id socket) reg \<longrightarrow>
        connectedClients (on_connection now socket reg) = reg
        \<and> map_of (connectedClients (on_connection now socket reg)) (socket_id socket)
            = map_of reg (socket_id socket)
        \<and> jsmap_size (connectedClients (on_connection now socket reg)) = jsmap_size reg
        \<and> server_messages (socket_id socket) (effects (on_connection now socket reg)) = []
        \<and> completion (on_connection now socket reg) = Returned)"
proof -
  have "distinct (jsmap_keys ([] :: registry))" by (simp add: jsmap_keys_def)
  then have "distinct (jsmap_keys (run io_emit env_port [] evs))" by (rule run_distinct)
  then show ?thesis by (simp add: on_connection_def Let_def)
qed

text \<open>
  The statement at a third connection that repeats the id of the first.
\<close>

theorem duplicate_connection_ignored_witness:
  "jsmap_has (socket_id socket_A) registry_AB
   \<and> distinct (jsmap_keys (run (\<lambda>d. None) None []
        [Connection 1000 socket_A, Connection 2000 socket_B, Connection 3000 socket_A]))
   \<and> connectedClients (on_connection 3000 socket_A registry_AB) = registry_AB
   \<and> server_messages ''A'' (effects (on_connection 3000 socket_A registry_AB)) = []"
  using duplicate_connection_ignored [where socket = socket_A and reg = registry_AB and now = 3000
      and io_emit = "\<lambda>d. None" and env_port = None
      and evs = "[Connection 1000 socket_A, Connection 2000 socket_B, Connection 3000 socket_A]"]
  by (simp add: jsmap_has_def)

subsection \<open>C5: the status route\<close>

text \<open>
  Claim C5. For every table, \<^verbatim>\<open>GET /api/status\<close> is answered 200 with
  \<^verbatim>\<open>status: "online"\<close>, the size of the table as \<^verbatim>\<open>connectedClients\<close>, and the
  records in order, each as its id and its connection time, as \<^verbatim>\<open>clients\<close>. Starting
  from the empty table with two sockets of different ids: after the first connects the
  count is 1, after the second it is 2, and after the first disconnects it is 1 and the
  only client listed is the second.
\<close>

theorem status_reports_registry:
  "completion (get_status reg) =
     Responded \<lparr>status_code = 200,
       body = StatusBody ''online'' (jsmap_size reg)
                (map (\<lambda>c. \<lparr>view_id = client_id c, connectedSince = connectedAt c\<rparr>) (jsmap_values reg))\<rparr>
   \<and> (socket_id a \<noteq> socket_id b \<longrightarrow>
        completion (get_status (run io_emit env_port [] [Connection ta a])) =
          Responded \<lparr>status_code = 200,
            body = StatusBody ''online'' 1 [\<lparr>view_id = socket_id a, connectedSince = ta\<rparr>]\<rparr>
        \<and> completion (get_status (run io_emit env_port [] [Connection ta a, Connection tb b])) =
          Responded \<lparr>status_code = 200,
            body = StatusBody ''online'' 2 [\<lparr>view_id = socket_id a, connectedSince = ta\<rparr>,
                                            \<lparr>view_id = socket_id b, connectedSince = tb\<rparr>]\<rparr>
        \<and> completion (get_status (run io_emit env_port []
              [Connection ta a, Connection tb b, Disconnect (socket_id a) reason])) =
          Responded \<lparr>status_code = 200,
            body = StatusBody ''online'' 1 [\<lparr>view_id = socket_id b, connectedSince = tb\<rparr>]\<rparr>)"
proof -
  have general: "completion (get_status reg) =
     Responded \<lparr>status_code = 200,
       body = StatusBody ''online'' (jsmap_size reg)
                (map (\<lambda>c. \<lparr>view_id = client_id c, connectedSince = connectedAt c\<rparr>) (jsmap_values reg))\<rparr>"
    by (simp add: get_status_def)
  have empty: "\<not> jsmap_has (socket_id a) ([] :: registry)" by (simp add: jsmap_has_def)
  have second: "\<not> jsmap_has (socket_id b) [(socket_id a, (x :: clientInfo))]"
    if "socket_id a \<noteq> socket_id b" for x
    using that by (simp add: jsmap_has_def)
  have scenario: "completion (get_status (run io_emit env_port [] [Connection ta a])) =
          Responded \<lparr>status_code = 200,
            body = StatusBody ''online'' 1 [\<lparr>view_id = socket_id a, connectedSince = ta\<rparr>]\<rparr>
        \<and> completion (get_status (run io_emit env_port [] [Connection ta a, Connection tb b])) =
          Responded \<lparr>status_code = 200,
            body = StatusBody ''online'' 2 [\<lparr>view_id = socket_id a, connectedSince = ta\<rparr>,
                                            \<lparr>view_id = socket_id b, connectedSince = tb\<rparr>]\<rparr>
        \<and> completion (get_status (run io_emit env_port []
              [Connection ta a, Connection tb b, Disconnect (socket_id a) reason])) =
          Responded \<lparr>status_code = 200,
            body = StatusBody ''online'' 1 [\<lparr>view_id = socket_id b, connectedSince = tb\<rparr>]\<rparr>"
    if "socket_id a \<noteq> socket_id b"
    using that
    by (simp add: run_connect_new [OF empty] run_connect_new [OF second [OF that]] run_disconnect
        get_status_def jsmap_size_def jsmap_values_def jsmap_delete_def del: run.simps(2))
  show ?thesis using general scenario by blast
qed

text \<open>
  The scenario with the sockets \<^verbatim>\<open>A\<close> and \<^verbatim>\<open>B\<close>.
\<close>

theorem status_reports_registry_witness:
  "socket_id socket_A \<noteq> socket_id socket_B
   \<and> completion (get_status (run (\<lambda>d. None) None []
        [Connection 1000 socket_A, Connection 2000 socket_B, Disconnect ''A'' ''transport close''])) =
      Responded \<lparr>status_code = 200,
        body = StatusBody ''online'' 1 [\<lparr>view_id = ''B'', connectedSince = 2000\<rparr>]\<rparr>
   \<and> completion (get_status (run (\<lambda>d. None) None [] [Connection 1000 socket_A, Connection 2000 socket_B])) =
      Responded \<lparr>status_code = 200,
        body = StatusBody ''online'' 2 [\<lparr>view_id = ''A'', connectedSince = 1000\<rparr>,
                                        \<lparr>view_id = ''B'', connectedSince = 2000\<rparr>]\<rparr>"
  using status_reports_registry [where a = socket_A and b = socket_B and ta = 1000 and tb = 2000
      and reg = "[]" and io_emit = "\<lambda>d. None" and env_port = None and reason = "''transport close''"]
  by simp

subsection \<open>C6: removal is idempotent\<close>

text \<open>
  Claim C6. The removal that the \<^verbatim>\<open>disconnect\<close> and \<^verbatim>\<open>error\<close> listeners perform is
  idempotent: run a second time for the same id, in either combination, it leaves the
  table of the first run, in which the id is absent; the listeners return normally
  whatever the table holds, and on a table without the id they change nothing.
\<close>

theorem removal_idempotent:
  "connectedClients (on_disconnect sid reason' (connectedClients (on_disconnect sid reason reg)))
     = connectedClients (on_disconnect sid reason reg)
   \<and> connectedClients (on_error sid error' (connectedClients (on_error sid error reg)))
     = connectedClients (on_error sid error reg)
   \<and> connectedClients (on_disconnect sid reason (connectedClients (on_error sid error reg)))
     = connectedClients (on_error sid error reg)
   \<and> \<not> jsmap_has sid (connectedClients (on_disconnect sid reason reg))
   \<and> \<not> jsmap_has sid (connectedClients (on_error sid error reg))
   \<and> completion (on_disconnect sid reason reg) = Returned
   \<and> completion (on_error sid error reg) = Returned
   \<and> (\<not> jsmap_has sid reg \<longrightarrow>
        connectedClients (on_disconnect sid reason reg) = reg
        \<and> connectedClients (on_error sid error reg) = reg)"
  by (simp add: on_disconnect_def on_error_def Let_def jsmap_delete_twice jsmap_has_delete
      jsmap_delete_absent)

text \<open>
  The statement at two disconnects of \<^verbatim>\<open>A\<close>, the second with the id already gone.
\<close>

theorem removal_idempotent_witness:
  "\<not> jsmap_has ''A'' (connectedClients (on_disconnect ''A'' ''transport close'' registry_AB))
   \<and> connectedClients (on_disconnect ''A'' ''ping timeout''
        (connectedClients (on_disconnect ''A'' ''transport close'' registry_AB))) = [(''B'', info_B)]
   \<and> connectedClients (on_disconnect ''A'' ''transport close'' registry_AB) = [(''B'', info_B)]
   \<and> completion (on_disconnect ''A'' ''ping timeout'' [(''B'', info_B)]) = Returned"
  using removal_idempotent [where sid = "''A''" and reason = "''transport close''"
      and reason' = "''ping timeout''" and reg = registry_AB]
    removal_idempotent [where sid = "''A''" and reason = "''ping timeout''" and reg = "[(''B'', info_B)]"]
  by (simp add: on_disconnect_def jsmap_delete_def Let_def)

subsection \<open>C7: an exception inside try\<close>

text \<open>
  Claim C7. With a connection registered, so that the route reaches \<^verbatim>\<open>try\<close>: when an
  exception \<open>e\<close> is raised while the Trigger Message is constructed (the message of a
  POST does not convert to a string) or sent (\<^verbatim>\<open>io.emit\<close> throws), the route answers 500 with \<^verbatim>\<open>{success: false, message: "Server error", error: e.message}\<close>
  and the table is the one before the request; both routes always end by responding,
  never with an exception that escapes.
\<close>

theorem trigger_sign_failure_caught:
  assumes "jsmap_size reg \<noteq> 0"
  shows "((to_string (post_message req_body) = Inl e
            \<or> (\<exists>str. to_string (post_message req_body) = Inr str)
               \<and> io_emit \<lparr>message = post_message req_body, id_field = show_nat now\<rparr> = Some e) \<longrightarrow>
           completion (post_trigger_sign io_emit req_body now reg) =
             Responded \<lparr>status_code = 500,
               body = TriggerFailed False ''Server error'' (error_message e)\<rparr>
           \<and> connectedClients (post_trigger_sign io_emit req_body now reg) = reg)
       \<and> (io_emit \<lparr>message = JStr (get_message iso_time), id_field = show_nat now\<rparr> = Some e \<longrightarrow>
           completion (get_trigger_sign io_emit iso_time now reg) =
             Responded \<lparr>status_code = 500,
               body = TriggerFailed False ''Server error'' (error_message e)\<rparr>
           \<and> connectedClients (get_trigger_sign io_emit iso_time now reg) = reg)
       \<and> (\<exists>r. completion (post_trigger_sign io_emit req_body now reg) = Responded r)
       \<and> (\<exists>r. completion (get_trigger_sign io_emit iso_time now reg) = Responded r)"
proof -
  have construct: "completion (post_trigger_sign io_emit req_body now reg) =
             Responded \<lparr>status_code = 500,
               body = TriggerFailed False ''Server error'' (error_message e)\<rparr>"
    if "to_string (post_message req_body) = Inl e"
    using assms broadcast_construct_fails [OF that, of io_emit now reg]
    by (simp add: post_trigger_sign_def Let_def)
  have send: "completion (post_trigger_sign io_emit req_body now reg) =
             Responded \<lparr>status_code = 500,
               body = TriggerFailed False ''Server error'' (error_message e)\<rparr>"
    if "to_string (post_message req_body) = Inr str"
      "io_emit \<lparr>message = post_message req_body, id_field = show_nat now\<rparr> = Some e" for str
    using assms that broadcast_send_fails [of "post_message req_body" str io_emit now e reg]
    by (simp add: post_trigger_sign_def Let_def)
  have get: "completion (get_trigger_sign io_emit iso_time now reg) =
             Responded \<lparr>status_code = 500,
               body = TriggerFailed False ''Server error'' (error_message e)\<rparr>"
    if "io_emit \<lparr>message = JStr (get_message iso_time), id_field = show_nat now\<rparr> = Some e"
    using assms that
      broadcast_send_fails [of "JStr (get_message iso_time)" "get_message iso_time" io_emit now e reg]
    by (simp add: get_trigger_sign_def Let_def)
  show ?thesis
    using construct send get post_responds [of io_emit req_body now reg]
      get_responds [of io_emit iso_time now reg]
    by (auto simp: post_frame get_frame)
qed

text \<open>
  The statement at a POST whose message has an own \<^verbatim>\<open>toString\<close> property, and at a GET
  whose broadcast call throws.
\<close>

theorem trigger_sign_failure_caught_witness:
  "jsmap_size registry_A \<noteq> 0
   \<and> to_string (post_message (Some (JObj [(''message'', JObj [(''toString'', JNull)])]))) =
       Inl (TypeError ''Cannot convert object to primitive value'')
   \<and> completion (post_trigger_sign (\<lambda>d. None)
         (Some (JObj [(''message'', JObj [(''toString'', JNull)])])) 42 registry_A) =
       Responded \<lparr>status_code = 500,
         body = TriggerFailed False ''Server error'' ''Cannot convert object to primitive value''\<rparr>
   \<and> completion (get_trigger_sign (\<lambda>d. Some \<lparr>error_code = None, error_message = ''encode failed''\<rparr>)
         ''2025-01-01T00:00:00.000Z'' 42 registry_A) =
       Responded \<lparr>status_code = 500, body = TriggerFailed False ''Server error'' ''encode failed''\<rparr>
   \<and> connectedClients (post_trigger_sign (\<lambda>d. None)
         (Some (JObj [(''message'', JObj [(''toString'', JNull)])])) 42 registry_A) = registry_A"
  using trigger_sign_failure_caught [where reg = registry_A and io_emit = "\<lambda>d. None"
      and req_body = "Some (JObj [(''message'', JObj [(''toString'', JNull)])])" and now = 42
      and e = "TypeError ''Cannot convert object to primitive value''"
      and iso_time = "''2025-01-01T00:00:00.000Z''"]
    trigger_sign_failure_caught [where reg = registry_A
      and io_emit = "\<lambda>d. Some \<lparr>error_code = None, error_message = ''encode failed''\<rparr>"
      and req_body = None and now = 42
      and e = "\<lparr>error_code = None, error_message = ''encode failed''\<rparr>"
      and iso_time = "''2025-01-01T00:00:00.000Z''"]
  by (simp add: jsmap_size_def post_message_def TypeError_def)

subsection \<open>C8: where the process exits\<close>

text \<open>
  Claim C8, as the code has it. A handler calls \<^verbatim>\<open>process.exit\<close> exactly when it is the
  \<^verbatim>\<open>error\<close> listener of \<^verbatim>\<open>server.listen\<close>, and then with status 1, whatever the
  error; no other handler exits. For the code \<^verbatim>\<open>EADDRINUSE\<close> the listener first prints the
  diagnostic that names the port and the two remedies, and exits with status 1; for any
  other error it first prints \<^verbatim>\<open>Error starting server:\<close> with the error, and exits with
  status 1.
\<close>

theorem process_exit_only_on_listen_error:
  "((completion (handle io_emit env_port ev reg) = Exited n) = ((\<exists>error. ev = ListenError error) \<and> n = 1))
   \<and> (error_code error = Some ''EADDRINUSE'' \<longrightarrow>
        effects (handle io_emit env_port (ListenError error) reg) =
          [ConsoleError (''Port '' @ PORT env_port @ '' is already in use. Please:\<newline>''
             @ ''1. Stop any other process using port '' @ PORT env_port @ '', or\<newline>''
             @ ''2. Use a different port by setting the PORT environment variable'')]
        \<and> completion (handle io_emit env_port (ListenError error) reg) = Exited 1)
   \<and> (error_code error \<noteq> Some ''EADDRINUSE'' \<longrightarrow>
        effects (handle io_emit env_port (ListenError error) reg) =
          [ConsoleErrorData ''Error starting server:'' error]
        \<and> completion (handle io_emit env_port (ListenError error) reg) = Exited 1)"
proof -
  have only: "(completion (handle io_emit env_port ev reg) = Exited n) = ((\<exists>error. ev = ListenError error) \<and> n = 1)"
    by (cases ev)
       (auto simp: on_connection_def on_disconnect_def on_error_def on_clientMessage_def get_status_def
          on_listening_def on_listen_error_def Let_def sign_result_not_exited post_not_exited
          get_not_exited)
  show ?thesis
    using only by (simp add: on_listen_error_def)
qed

text \<open>
  The statement at an address-in-use error with the default port, at a permission error,
  and at a disconnect.
\<close>

theorem process_exit_only_on_listen_error_witness:
  "effects (handle (\<lambda>d. None) None
      (ListenError \<lparr>error_code = Some ''EADDRINUSE'', error_message = ''listen EADDRINUSE: address already in use :::3000''\<rparr>)
      registry_A) =
     [ConsoleError (''Port 3000 is already in use. Please:\<newline>''
        @ ''1. Stop any other process using port 3000, or\<newline>''
        @ ''2. Use a different port by setting the PORT environment variable'')]
   \<and> completion (handle (\<lambda>d. None) None
      (ListenError \<lparr>error_code = Some ''EADDRINUSE'', error_message = ''listen EADDRINUSE: address already in use :::3000''\<rparr>)
      registry_A) = Exited 1
   \<and> effects (handle (\<lambda>d. None) (Some ''443'')
      (ListenError \<lparr>error_code = Some ''EACCES'', error_message = ''listen EACCES: permission denied 0.0.0.0:443''\<rparr>)
      registry_A) =
     [ConsoleErrorData ''Error starting server:''
        \<lparr>error_code = Some ''EACCES'', error_message = ''listen EACCES: permission denied 0.0.0.0:443''\<rparr>]
   \<and> completion (handle (\<lambda>d. None) None (Disconnect ''A'' ''transport close'') registry_A) \<noteq> Exited 1"
  using process_exit_only_on_listen_error [where io_emit = "\<lambda>d. None" and env_port = None and n = 1
      and reg = registry_A
      and ev = "Disconnect ''A'' ''transport close''"
      and error = "\<lparr>error_code = Some ''EADDRINUSE'', error_message = ''listen EADDRINUSE: address already in use :::3000''\<rparr>"]
    process_exit_only_on_listen_error [where io_emit = "\<lambda>d. None" and env_port = "Some ''443''" and n = 1
      and reg = registry_A
      and ev = "Disconnect ''A'' ''transport close''"
      and error = "\<lparr>error_code = Some ''EACCES'', error_message = ''listen EACCES: permission denied 0.0.0.0:443''\<rparr>"]
  by (simp add: PORT_def)

text \<open>
  A port conflict is not the only error that ends the process: a listen error with the
  code \<^verbatim>\<open>EACCES\<close> takes the \<^verbatim>\<open>else\<close> branch, which also calls
  \<^verbatim>\<open>process.exit(1)\<close>.
\<close>

theorem process_exit_counterexample:
  "error_code \<lparr>error_code = Some ''EACCES'', error_message = ''listen EACCES: permission denied 0.0.0.0:80''\<rparr>
     \<noteq> Some ''EADDRINUSE''
   \<and> completion (handle (\<lambda>d. None) (Some ''80'')
        (ListenError \<lparr>error_code = Some ''EACCES'',
                       error_message = ''listen EACCES: permission denied 0.0.0.0:80''\<rparr>) []) = Exited 1"
  by (simp add: on_listen_error_def)

subsection \<open>C9: the HTTP routes leave the table alone\<close>

text \<open>
  Claim C9. After \<^verbatim>\<open>GET /api/status\<close>, \<^verbatim>\<open>POST /api/trigger-sign\<close> and
  \<^verbatim>\<open>GET /api/trigger-sign\<close> the table is the one before the request, on every path;
  and a handler that changes the table is the \<^verbatim>\<open>connection\<close> listener, the
  \<^verbatim>\<open>disconnect\<close> listener or the \<^verbatim>\<open>error\<close> listener of a socket.
\<close>

theorem http_routes_leave_registry:
  "connectedClients (get_status reg) = reg
   \<and> connectedClients (post_trigger_sign io_emit req_body now reg) = reg
   \<and> connectedClients (get_trigger_sign io_emit iso_time now reg) = reg
   \<and> (connectedClients (handle io_emit env_port ev reg) \<noteq> reg \<longrightarrow>
        (\<exists>now socket. ev = Connection now socket) \<or> (\<exists>sid reason. ev = Disconnect sid reason)
        \<or> (\<exists>sid error. ev = SocketError sid error))"
  using handle_frame [of io_emit env_port ev reg]
  by (simp add: status_frame post_frame get_frame)

text \<open>
  The statement at a new connection, which does change the table, and at a POST.
\<close>

theorem http_routes_leave_registry_witness:
  "connectedClients (handle (\<lambda>d. None) None (Connection 2000 socket_B) registry_A) \<noteq> registry_A
   \<and> connectedClients (handle (\<lambda>d. None) None (Connection 2000 socket_B) registry_A) = registry_AB
   \<and> connectedClients (post_trigger_sign (\<lambda>d. None) (Some (JObj [])) 42 registry_A) = registry_A"
  using http_routes_leave_registry [where reg = registry_A and io_emit = "\<lambda>d. None" and env_port = None
      and ev = "Connection 2000 socket_B" and req_body = "Some (JObj [])" and now = 42
      and iso_time = "''2025-01-01T00:00:00.000Z''"]
  by (simp add: on_connection_def jsmap_has_def Let_def)

subsection \<open>C10: the acknowledgement of a signature report\<close>

text \<open>
  Claim C10, as the code has it. For a report whose \<^verbatim>\<open>message\<close> is a string, whose
  \<^verbatim>\<open>account\<close> converts to a string (a missing one does) and whose \<^verbatim>\<open>signature\<close> is
  missing, \<^verbatim>\<open>null\<close> or a string, the \<^verbatim>\<open>signMessageResult\<close> listener returns and sends
  exactly one \<^verbatim>\<open>serverMessage\<close> to the socket that reported, quoting the first 30
  characters of the message, followed by \<^verbatim>\<open>...\<close> when it is longer. For a report whose
  \<^verbatim>\<open>message\<close> is missing or not a string, building the acknowledgement throws, the
  listener ends with an uncaught exception and sends nothing.
\<close>

theorem sign_result_acknowledged:
  "(\<forall>j s a. data = Some j \<and> get_field j ''message'' = Some (JStr s)
        \<and> field_text data ''account'' = Inr a
        \<and> (get_field j ''signature'' = None \<or> get_field j ''signature'' = Some JNull
             \<or> (\<exists>g. get_field j ''signature'' = Some (JStr g))) \<longrightarrow>
        completion (on_signMessageResult sid data reg) = Returned
        \<and> server_messages sid (effects (on_signMessageResult sid data reg)) =
            [''Signature received for message: '' @ [CHR 0x22] @ take 30 s
               @ (if 30 < length s then ''...'' else '''') @ [CHR 0x22]])
   \<and> (\<not> (\<exists>j s. data = Some j \<and> get_field j ''message'' = Some (JStr s)) \<longrightarrow>
        (\<exists>e. acknowledgement data = Inl e)
        \<and> (\<exists>e. completion (on_signMessageResult sid data reg) = Uncaught e)
        \<and> server_messages sid (effects (on_signMessageResult sid data reg)) = [])"
proof -
  have acked: "\<forall>j s a. data = Some j \<and> get_field j ''message'' = Some (JStr s)
        \<and> field_text data ''account'' = Inr a
        \<and> (get_field j ''signature'' = None \<or> get_field j ''signature'' = Some JNull
             \<or> (\<exists>g. get_field j ''signature'' = Some (JStr g))) \<longrightarrow>
        completion (on_signMessageResult sid data reg) = Returned
        \<and> server_messages sid (effects (on_signMessageResult sid data reg)) =
            [''Signature received for message: '' @ [CHR 0x22] @ take 30 s
               @ (if 30 < length s then ''...'' else '''') @ [CHR 0x22]]"
  proof (intro allI impI, elim conjE)
    fix j s a
    assume d: "data = Some j"
      and m: "get_field j ''message'' = Some (JStr s)"
      and ac: "field_text data ''account'' = Inr a"
      and sg: "get_field j ''signature'' = None \<or> get_field j ''signature'' = Some JNull
             \<or> (\<exists>g. get_field j ''signature'' = Some (JStr g))"
    from ac have ac': "field_text (Some j) ''account'' = Inr a" unfolding d .
    show "completion (on_signMessageResult sid data reg) = Returned
        \<and> server_messages sid (effects (on_signMessageResult sid data reg)) =
            [''Signature received for message: '' @ [CHR 0x22] @ take 30 s
               @ (if 30 < length s then ''...'' else '''') @ [CHR 0x22]]"
      unfolding d by (rule sign_result_ok [OF m ac' sg])
  qed
  have thrown: "\<not> (\<exists>j s. data = Some j \<and> get_field j ''message'' = Some (JStr s)) \<longrightarrow>
        (\<exists>e. acknowledgement data = Inl e)
        \<and> (\<exists>e. completion (on_signMessageResult sid data reg) = Uncaught e)
        \<and> server_messages sid (effects (on_signMessageResult sid data reg)) = []"
  proof (rule impI)
    assume "\<not> (\<exists>j s. data = Some j \<and> get_field j ''message'' = Some (JStr s))"
    then obtain e where e: "acknowledgement data = Inl e"
      using acknowledgement_not_string [of data] by blast
    have "\<exists>e. acknowledgement data = Inl e" using e by (rule exI)
    with sign_result_throws [OF e, of sid reg]
    show "(\<exists>e. acknowledgement data = Inl e)
        \<and> (\<exists>e. completion (on_signMessageResult sid data reg) = Uncaught e)
        \<and> server_messages sid (effects (on_signMessageResult sid data reg)) = []"
      by (intro conjI) (erule conjunct1 conjunct2 | assumption)+
  qed
  from acked thrown show ?thesis by (rule conjI)
qed

text \<open>
  The statement at a report with a message of 41 characters, and at a report without a
  message.
\<close>

theorem sign_result_acknowledged_witness:
  "server_messages ''A'' (effects (on_signMessageResult ''A''
      (Some (JObj [(''account'', JStr ''0xabc''),
                   (''message'', JStr ''Please sign this message from the server.''),
                   (''signature'', JStr ''0x1234'')])) registry_A)) =
     [''Signature received for message: '' @ [CHR 0x22] @ ''Please sign this message from '' @ ''...'' @ [CHR 0x22]]
   \<and> (\<exists>e. completion (on_signMessageResult ''A'' (Some (JObj [(''account'', JStr ''0xabc'')])) registry_A)
          = Uncaught e)"
  using sign_result_acknowledged [where sid = "''A''" and reg = registry_A
      and data = "Some (JObj [(''account'', JStr ''0xabc''),
                   (''message'', JStr ''Please sign this message from the server.''),
                   (''signature'', JStr ''0x1234'')])"]
    sign_result_acknowledged [where sid = "''A''" and reg = registry_A
      and data = "Some (JObj [(''account'', JStr ''0xabc'')])"]
  by (simp add: field_text_def read_field_def template_def)

text \<open>
  A string message alone does not make the listener return: with the signature 5 the
  call \<^verbatim>\<open>data.signature?.substring(0, 20)\<close> in the log line throws, since the optional
  chain only guards against \<^verbatim>\<open>undefined\<close> and \<^verbatim>\<open>null\<close>, and no acknowledgement is sent.
\<close>

theorem sign_result_acknowledged_counterexample:
  "get_field (JObj [(''account'', JStr ''0xabc''), (''message'', JStr ''hi''), (''signature'', JNum 5)])
       ''message'' = Some (JStr ''hi'')
   \<and> completion (on_signMessageResult ''A''
        (Some (JObj [(''account'', JStr ''0xabc''), (''message'', JStr ''hi''), (''signature'', JNum 5)]))
        registry_A) = Uncaught (TypeError ''data.signature?.substring is not a function'')
   \<and> server_messages ''A'' (effects (on_signMessageResult ''A''
        (Some (JObj [(''account'', JStr ''0xabc''), (''message'', JStr ''hi''), (''signature'', JNum 5)]))
        registry_A)) = []"
  by (simp add: on_signMessageResult_def logging_def field_text_def read_field_def template_def
      signature_text_def acknowledgement_def Let_def)

end
